theory Spec2Isabelle
  imports Main "HOL-Library.Word"
begin

section \<open>Errors (package github.com/pkg/errors)\<close>

text \<open>
  A Go \<open>error\<close> is a value with a method \<open>Error() string\<close>. The program builds errors
  with \<open>errors.Errorf\<close> (a leaf carrying the formatted message) and \<open>errors.Wrapf\<close>
  (a cause and a message, whose text is \<open>message: cause\<close>); the errors of the broker,
  the runtime and the docker client are values of the same type. The format strings are
  written out with their arguments already rendered.
\<close>

datatype error = Fundamental string | WithMessage error string

fun err_Error :: "error \<Rightarrow> string" where
  "err_Error (Fundamental msg) = msg"
| "err_Error (WithMessage cause msg) = msg @ '': '' @ err_Error cause"

definition Errorf :: "string \<Rightarrow> error" where
  "Errorf msg = Fundamental msg"

definition Wrapf :: "error \<Rightarrow> string \<Rightarrow> error" where
  "Wrapf err msg = WithMessage err msg"

section \<open>The task (package task)\<close>

text \<open>
  Modelled from the spec: package \<open>task\<close> is not among the sources. The spec gives the
  lifecycle states (Scheduled, Running, Completed, Failed); the fields of \<open>Task\<close> are
  those the two source files read and write. \<open>*time.Time\<close> is an optional time,
  \<open>nil\<close> being \<open>None\<close>; \<open>map[string]string\<close> is the list of its entries in the order
  \<open>range\<close> yields them; \<open>int64\<close> is a 64-bit word.
\<close>

datatype State = Scheduled | Running | Completed | Failed

text \<open>
  Modelled from the spec: the text \<open>%s\<close> prints for a state is not in the sources; the
  spec's name of the state stands for it.
\<close>

fun State_String :: "State \<Rightarrow> string" where
  "State_String Scheduled = ''Scheduled''"
| "State_String Running = ''Running''"
| "State_String Completed = ''Completed''"
| "State_String Failed = ''Failed''"

type_synonym Time = int

record Task =
  ID :: string
  Image :: string
  CMD :: "string list"
  Env :: "(string \<times> string) list"
  Memory :: "64 word"
  RestartPolicy :: string
  State :: State
  StartedAt :: "Time option"
  CompletedAt :: "Time option"
  FailedAt :: "Time option"
  Result :: string
  Error :: string

section \<open>The worker (package worker)\<close>

text \<open>
  Modelled from the spec: package \<open>mq\<close> is not among the sources. The spec names the
  default work queue and the three status queues.
\<close>

datatype queue = QUEUE_DEFAULT | QUEUE_STARTED | QUEUE_COMPLETED | QUEUE_ERROR

text \<open>
  The interfaces \<open>runtime.Runtime\<close> and \<open>mq.Broker\<close> are external collaborators: a
  method is a function of the state \<open>'w\<close> of everything outside the handler (broker,
  execution backend, clock), returning its Go results and the next state. The context
  argument is left out. A collaborator receives the task as it is at the call and does
  not write to it (the container runtime of this repository only reads it; the broker
  receives a snapshot). A call that never returns or panics is outside this model.
\<close>

record 'w Runtime =
  Run :: "Task \<Rightarrow> 'w \<Rightarrow> (string \<times> error option) \<times> 'w"
  Stop :: "Task \<Rightarrow> 'w \<Rightarrow> error option \<times> 'w"

record 'w Broker =
  Publish :: "queue \<Rightarrow> Task \<Rightarrow> 'w \<Rightarrow> error option \<times> 'w"

record 'w Worker =
  Name :: string
  runtime :: "'w Runtime"
  broker :: "'w Broker"

text \<open>
  The handler's effects are its calls to the outside, in program order: reading the
  clock, publishing a task to a queue, running a task. \<open>calls\<close> records them (oldest
  first) beside the outside state.
\<close>

datatype event = CallNow Time | CallPublish queue Task | CallRun Task

record 'w sys =
  world :: 'w
  calls :: "event list"

definition time_Now :: "('w \<Rightarrow> Time \<times> 'w) \<Rightarrow> 'w sys \<Rightarrow> Time \<times> 'w sys" where
  "time_Now clock s =
     (case clock (world s) of
        (n, x) \<Rightarrow> (n, \<lparr>world = x, calls = calls s @ [CallNow n]\<rparr>))"

definition broker_Publish ::
  "'w Worker \<Rightarrow> queue \<Rightarrow> Task \<Rightarrow> 'w sys \<Rightarrow> error option \<times> 'w sys" where
  "broker_Publish w q t s =
     (case Publish (broker w) q t (world s) of
        (err, x) \<Rightarrow> (err, \<lparr>world = x, calls = calls s @ [CallPublish q t]\<rparr>))"

definition runtime_Run ::
  "'w Worker \<Rightarrow> Task \<Rightarrow> 'w sys \<Rightarrow> (string \<times> error option) \<times> 'w sys" where
  "runtime_Run w t s =
     (case Run (runtime w) t (world s) of
        (r, x) \<Rightarrow> (r, \<lparr>world = x, calls = calls s @ [CallRun t]\<rparr>))"

text \<open>
  \<open>handleTask\<close> receives a pointer to the task and writes to it: the model returns the
  task as the caller finds it afterwards, beside the returned error (\<open>None\<close> is \<open>nil\<close>)
  and the state.
\<close>

definition handleTask ::
  "('w \<Rightarrow> Time \<times> 'w) \<Rightarrow> 'w Worker \<Rightarrow> Task \<Rightarrow> 'w sys \<Rightarrow> error option \<times> Task \<times> 'w sys" where
  "handleTask clock w t s =
     (if State t \<noteq> Scheduled then
        (Some (Errorf (''can't start a task in '' @ State_String (State t) @ '' state'')), t, s)
      else
        case time_Now clock s of (started, s1) \<Rightarrow>
        (let t1 = t\<lparr>StartedAt := Some started\<rparr>;
             t2 = t1\<lparr>State := Running\<rparr>
         in
         (case broker_Publish w QUEUE_STARTED t2 s1 of
            (Some err, s2) \<Rightarrow> (Some err, t2, s2)
          | (None, s2) \<Rightarrow>
            (case runtime_Run w t2 s2 of ((result, rerr), s3) \<Rightarrow>
            (case time_Now clock s3 of (finished, s4) \<Rightarrow>
             (case rerr of
                Some err \<Rightarrow>
                  let t3 = t2\<lparr>State := Failed\<rparr>;
                      t4 = t3\<lparr>Error := err_Error err\<rparr>;
                      t5 = t4\<lparr>FailedAt := Some finished\<rparr>
                  in
                  (case broker_Publish w QUEUE_ERROR t5 s4 of
                     (Some err, s5) \<Rightarrow> (Some err, t5, s5)
                   | (None, s5) \<Rightarrow> (None, t5, s5))
              | None \<Rightarrow>
                  let t3 = t2\<lparr>Result := result\<rparr>;
                      t4 = t3\<lparr>CompletedAt := Some finished\<rparr>;
                      t5 = t4\<lparr>State := Completed\<rparr>
                  in
                  (case broker_Publish w QUEUE_COMPLETED t5 s4 of
                     (perr, s5) \<Rightarrow> (perr, t5, s5))))))))"

section \<open>The container runtime (package runtime)\<close>

subsection \<open>Readers and the docker stream format\<close>

text \<open>
  A Go string is a sequence of bytes, and so is an Isabelle \<open>string\<close> (a \<open>char\<close> is
  a byte). A reader delivers \<open>bytes\<close> and then ends: with \<open>io.EOF\<close> (\<open>fin = None\<close>)
  or with a read error, returned by a \<open>Read\<close> of its own after the last byte. A
  \<open>ReadCloser\<close> has also the result of its \<open>Close\<close>.
\<close>

record Reader =
  bytes :: string
  fin :: "error option"

record ReadCloser = Reader +
  close_err :: "error option"

text \<open>
  \<open>io.LimitedReader{R: r, N: n}\<close> (Go's standard library) hands out the first \<open>n\<close>
  bytes of \<open>r\<close> and then reports \<open>io.EOF\<close> without reading \<open>r\<close> again; a shorter
  \<open>r\<close> ends as it ends.
\<close>

definition LimitedReader :: "('a Reader_scheme) \<Rightarrow> nat \<Rightarrow> Reader" where
  "LimitedReader r n =
     (if n \<le> length (bytes r) then \<lparr>bytes = take n (bytes r), fin = None\<rparr>
      else \<lparr>bytes = bytes r, fin = fin r\<rparr>)"

fun decimal :: "nat \<Rightarrow> string" where
  "decimal n =
     (if n < 10 then [char_of (48 + n)]
      else decimal (n div 10) @ [char_of (48 + n mod 10)])"

declare decimal.simps [simp del]

definition frameSize :: "string \<Rightarrow> nat" where
  "frameSize buf =
     ((of_char (buf ! 4) * 256 + of_char (buf ! 5)) * 256 + of_char (buf ! 6)) * 256
       + of_char (buf ! 7)"

text \<open>
  \<open>stdcopy.StdCopy(dstout, dsterr, src)\<close> belongs to the docker library, a dependency
  that is not among the sources; it is written here after the library. The stream is a
  sequence of frames: a header of 8 bytes (the stream type: 0 stdin, 1 stdout, 2 stderr,
  3 an error of the daemon; three unused bytes; the payload's size, big-endian in 4
  bytes) and the payload. Each whole frame of type 0, 1 or 2 is written to its
  destination; \<open>Run\<close> passes the same builder for both. When the source ends with
  \<open>io.EOF\<close> inside a header or a payload, the incomplete frame is dropped and there is
  no error. \<open>StdCopy_loop buf ending written\<close> is the loop at the unread rest
  \<open>buf\<close> of the stream, which ends with \<open>ending\<close>, and the builder's contents
  \<open>written\<close>; it returns the builder's contents and the error.
\<close>

function StdCopy_loop :: "string \<Rightarrow> error option \<Rightarrow> string \<Rightarrow> string \<times> error option" where
  "StdCopy_loop buf ending written =
     (if length buf < 8 then (written, ending)
      else if 3 < (of_char (buf ! 0) :: nat) then
        (written, Some (Errorf (''Unrecognized input header: '' @ decimal (of_char (buf ! 0)))))
      else if length buf < frameSize buf + 8 then (written, ending)
      else if (of_char (buf ! 0) :: nat) = 3 then
        (written, Some (Errorf (''error from daemon in stream: ''
                                  @ take (frameSize buf) (drop 8 buf))))
      else StdCopy_loop (drop (frameSize buf + 8) buf) ending
             (written @ take (frameSize buf) (drop 8 buf)))"
  by pat_completeness auto
termination
  by (relation "measure (\<lambda>(buf, ending, written). length buf)") auto

declare StdCopy_loop.simps [simp del]

definition StdCopy :: "('a Reader_scheme) \<Rightarrow> string \<times> error option" where
  "StdCopy src = StdCopy_loop (bytes src) (fin src) []"

subsection \<open>The docker client and the runtime's state\<close>

record Config =
  cfg_Image :: string
  cfg_Env :: "string list"
  cfg_Cmd :: "string list"

record HostConfig =
  RestartPolicy_Name :: string
  Resources_Memory :: "64 word"
  PublishAllPorts :: bool

record ContainerLogsOptions =
  ShowStdout :: bool
  ShowStderr :: bool

record ContainerRemoveOptions =
  RemoveVolumes :: bool
  RemoveLinks :: bool
  Force :: bool

text \<open>
  \<open>ContainerWait\<close> returns two channels and \<open>Run\<close> selects on them: the outcome is
  the value received, an error (possibly \<open>nil\<close>) or a status with its exit code.
\<close>

datatype wait = WaitErr "error option" | WaitStatus "64 word"

text \<open>
  The client's methods, and \<open>io.Copy\<close> to the process's standard output, are functions
  of the state \<open>'c\<close> of the docker daemon and the host. A method returning a value and
  an error returns one of the two (\<open>Inl\<close> the error, the value being \<open>nil\<close> then).
\<close>

record 'c extern =
  client_ImagePull :: "string \<Rightarrow> 'c \<Rightarrow> (error + ReadCloser) \<times> 'c"
  io_Copy_Stdout :: "ReadCloser \<Rightarrow> 'c \<Rightarrow> error option \<times> 'c"
  client_ContainerCreate :: "Config \<Rightarrow> HostConfig \<Rightarrow> string \<Rightarrow> 'c \<Rightarrow> (error + string) \<times> 'c"
  client_ContainerStart :: "string \<Rightarrow> 'c \<Rightarrow> error option \<times> 'c"
  client_ContainerLogs :: "string \<Rightarrow> ContainerLogsOptions \<Rightarrow> 'c \<Rightarrow> (error + ReadCloser) \<times> 'c"
  client_ContainerWait :: "string \<Rightarrow> 'c \<Rightarrow> wait \<times> 'c"
  client_ContainerRemove :: "string \<Rightarrow> ContainerRemoveOptions \<Rightarrow> 'c \<Rightarrow> error option \<times> 'c"

datatype level = DebugLevel | ErrorLevel

datatype field = Err error | Str string string | Int64 string "64 word"

datatype call =
    CallImagePull string
  | CallCopyStdout
  | CallContainerCreate Config HostConfig string
  | CallContainerStart string
  | CallContainerLogs string ContainerLogsOptions
  | CallClose
  | CallContainerWait string
  | CallContainerRemove string ContainerRemoveOptions
  | Log level "field list" string

text \<open>
  \<open>DockerRuntime\<close>: the client (its state), the tracking table \<open>tasks\<close> from task IDs
  to container IDs, and \<open>trace\<close>, the calls to the outside and the log lines in program
  order (oldest first). The calls of one goroutine are modelled; the mutex \<open>mu\<close> has no
  part in them.
\<close>

record 'c DockerRuntime =
  client :: 'c
  tasks :: "string \<rightharpoonup> string"
  trace :: "call list"

definition emit :: "call \<Rightarrow> 'c DockerRuntime \<Rightarrow> 'c DockerRuntime" where
  "emit c d = d\<lparr>trace := trace d @ [c]\<rparr>"

definition invoke :: "call \<Rightarrow> ('c \<Rightarrow> 'r \<times> 'c) \<Rightarrow> 'c DockerRuntime \<Rightarrow> 'r \<times> 'c DockerRuntime" where
  "invoke c f d =
     (case f (client d) of (r, x) \<Rightarrow> (r, d\<lparr>client := x, trace := trace d @ [c]\<rparr>))"

subsection \<open>Stop\<close>

definition DockerRuntime_Stop ::
  "'c extern \<Rightarrow> Task \<Rightarrow> 'c DockerRuntime \<Rightarrow> error option \<times> 'c DockerRuntime" where
  "DockerRuntime_Stop x t d =
     (case tasks d (ID t) of
        None \<Rightarrow> (None, d)
      | Some containerID \<Rightarrow>
          let d1 = d\<lparr>tasks := (tasks d)(ID t := None)\<rparr>;
              d2 = emit (Log DebugLevel []
                     (''Attempting to stop and remove container '' @ containerID)) d1;
              opts = \<lparr>RemoveVolumes = True, RemoveLinks = False, Force = True\<rparr>
          in invoke (CallContainerRemove containerID opts)
               (client_ContainerRemove x containerID opts) d2)"

subsection \<open>Run\<close>

text \<open>
  \<open>Run\<close> returns a string and an error, or panics: when \<open>ContainerLogs\<close> fails, \<open>out\<close>
  is \<open>nil\<close> and the deferred \<open>out.Close()\<close> runs on it as \<open>Run\<close> returns.
\<close>

datatype outcome = Panic | Return string "error option"

text \<open>The deferred function: it runs at every return after the \<open>defer\<close> statement.\<close>

definition Run_deferred :: "ReadCloser \<Rightarrow> string \<Rightarrow> 'c DockerRuntime \<Rightarrow> 'c DockerRuntime" where
  "Run_deferred out resp_ID d =
     (let d1 = emit CallClose d in
      case close_err out of
        Some err \<Rightarrow>
          emit (Log ErrorLevel [Err err] (''error closing stdout on container '' @ resp_ID)) d1
      | None \<Rightarrow> d1)"

text \<open>From the limited read of the logs to the end of \<open>Run\<close>, the deferred call apart.\<close>

definition Run_logs ::
  "'c extern \<Rightarrow> Task \<Rightarrow> string \<Rightarrow> ReadCloser \<Rightarrow> 'c DockerRuntime \<Rightarrow> outcome \<times> 'c DockerRuntime" where
  "Run_logs x t resp_ID out d =
     (let lr = LimitedReader out 1024 in
      case StdCopy lr of
        (buf, Some err) \<Rightarrow> (Return [] (Some (Wrapf err ''error reading the std out'')), d)
      | (buf, None) \<Rightarrow>
          (case invoke (CallContainerWait resp_ID) (client_ContainerWait x resp_ID) d of
             (WaitErr (Some err), d1) \<Rightarrow> (Return [] (Some err), d1)
           | (w, d1) \<Rightarrow>
               let d2 = (case w of
                           WaitStatus code \<Rightarrow>
                             emit (Log DebugLevel [Int64 ''status-code'' code, Str ''task-id'' (ID t)]
                                     ''task completed'') d1
                         | WaitErr e \<Rightarrow> d1)
               in
               (case DockerRuntime_Stop x t d2 of
                  (Some err, d3) \<Rightarrow>
                    (Return buf None,
                     emit (Log ErrorLevel [Err err, Str ''container-id'' resp_ID]
                             ''error removing container upon completion'') d3)
                | (None, d3) \<Rightarrow> (Return buf None, d3))))"

definition DockerRuntime_Run ::
  "'c extern \<Rightarrow> Task \<Rightarrow> 'c DockerRuntime \<Rightarrow> outcome \<times> 'c DockerRuntime" where
  "DockerRuntime_Run x t d =
     (case invoke (CallImagePull (Image t)) (client_ImagePull x (Image t)) d of
        (Inl err, d1) \<Rightarrow>
          (Return [] (Some err),
           emit (Log ErrorLevel [Err err]
                   (''Error pulling image '' @ Image t @ '': '' @ err_Error err @ [CHR 0x0A])) d1)
      | (Inr reader, d1) \<Rightarrow>
          (case invoke CallCopyStdout (io_Copy_Stdout x reader) d1 of
             (Some err, d2) \<Rightarrow> (Return [] (Some err), d2)
           | (None, d2) \<Rightarrow>
               let rp = RestartPolicy t;
                   r = Memory t;
                   env = map (\<lambda>(name, value). name @ ''='' @ value) (Env t);
                   cc = \<lparr>cfg_Image = Image t, cfg_Env = env, cfg_Cmd = CMD t\<rparr>;
                   hc = \<lparr>RestartPolicy_Name = rp, Resources_Memory = r, PublishAllPorts = True\<rparr>
               in
               (case invoke (CallContainerCreate cc hc (ID t))
                       (client_ContainerCreate x cc hc (ID t)) d2 of
                  (Inl err, d3) \<Rightarrow>
                    (Return [] (Some err),
                     emit (Log ErrorLevel []
                             (''Error creating container using image '' @ Image t @ '': ''
                                @ err_Error err @ [CHR 0x0A])) d3)
                | (Inr resp_ID, d3) \<Rightarrow>
                    let d4 = d3\<lparr>tasks := (tasks d3)(ID t \<mapsto> resp_ID)\<rparr> in
                    (case invoke (CallContainerStart resp_ID) (client_ContainerStart x resp_ID) d4 of
                       (Some err, d5) \<Rightarrow>
                         (Return [] (Some (Wrapf err
                            (''error starting container '' @ resp_ID @ '': '' @ err_Error err
                               @ [CHR 0x0A]))), d5)
                     | (None, d5) \<Rightarrow>
                         let opts = \<lparr>ShowStdout = True, ShowStderr = True\<rparr> in
                         (case invoke (CallContainerLogs resp_ID opts)
                                 (client_ContainerLogs x resp_ID opts) d5 of
                            (Inl err, d6) \<Rightarrow> (Panic, d6)
                          | (Inr out, d6) \<Rightarrow>
                              (case Run_logs x t resp_ID out d6 of
                                 (res, d7) \<Rightarrow> (res, Run_deferred out resp_ID d7)))))))"

section \<open>Concrete collaborators\<close>

text \<open>
  A task as in the spec's scenario, and collaborators whose state counts the calls made
  to them. The clock shows the count.
\<close>

definition ex_task :: Task where
  "ex_task =
     \<lparr>ID = ''t1'', Image = ''alpine'', CMD = [''echo'', ''hi''], Env = [(''A'', ''1'')],
      Memory = 0, RestartPolicy = ''no'', State = Scheduled, StartedAt = None,
      CompletedAt = None, FailedAt = None, Result = [], Error = []\<rparr>"

definition ex_clock :: "nat \<Rightarrow> Time \<times> nat" where
  "ex_clock n = (int n, Suc n)"

text \<open>
  A worker whose broker fails on the queues of \<open>down\<close> and whose runtime returns
  \<open>result\<close>.
\<close>

definition ex_worker :: "queue list \<Rightarrow> string \<times> error option \<Rightarrow> nat Worker" where
  "ex_worker down result =
     \<lparr>Name = ''worker-1'',
      runtime = \<lparr>Run = (\<lambda>t n. (result, Suc n)), Stop = (\<lambda>t n. (None, Suc n))\<rparr>,
      broker = \<lparr>Publish = (\<lambda>q t n.
                  (if q \<in> set down then Some (Fundamental ''broker unreachable'') else None,
                   Suc n))\<rparr>\<rparr>"

definition ex_sys :: "nat sys" where
  "ex_sys = \<lparr>world = 0, calls = []\<rparr>"

text \<open>
  A docker daemon where pull, create and start succeed, the container's log stream is
  \<open>logs\<close>, the wait yields \<open>w\<close> and the removal returns \<open>rm\<close>.
\<close>

definition ex_extern :: "string \<Rightarrow> wait \<Rightarrow> error option \<Rightarrow> nat extern" where
  "ex_extern logs w rm =
     \<lparr>client_ImagePull = (\<lambda>image n. (Inr \<lparr>bytes = ''ok'', fin = None, close_err = None\<rparr>, Suc n)),
      io_Copy_Stdout = (\<lambda>r n. (None, Suc n)),
      client_ContainerCreate = (\<lambda>cc hc name n. (Inr (''c-'' @ name), Suc n)),
      client_ContainerStart = (\<lambda>containerID n. (None, Suc n)),
      client_ContainerLogs = (\<lambda>containerID opts n.
        (Inr \<lparr>bytes = logs, fin = None, close_err = None\<rparr>, Suc n)),
      client_ContainerWait = (\<lambda>containerID n. (w, Suc n)),
      client_ContainerRemove = (\<lambda>containerID opts n. (rm, Suc n))\<rparr>"

definition ex_runtime :: "nat DockerRuntime" where
  "ex_runtime = \<lparr>client = 0, tasks = Map.empty, trace = []\<rparr>"

text \<open>A frame of the docker stream: its header and its payload.\<close>

definition ex_frame :: "nat \<Rightarrow> nat \<Rightarrow> char \<Rightarrow> string" where
  "ex_frame ty n c =
     [char_of ty, CHR 0x00, CHR 0x00, CHR 0x00,
      char_of (n div 16777216), char_of (n div 65536 mod 256), char_of (n div 256 mod 256),
      char_of (n mod 256)] @ replicate n c"

section \<open>Properties of the model\<close>

lemma tasks_emit [simp]: "tasks (emit c d) = tasks d"
  by (simp add: emit_def)

lemma client_emit [simp]: "client (emit c d) = client d"
  by (simp add: emit_def)

lemma trace_emit [simp]: "trace (emit c d) = trace d @ [c]"
  by (simp add: emit_def)

lemma invoke_eq:
  "f (client d) = (r, c') \<Longrightarrow> invoke c f d = (r, d\<lparr>client := c', trace := trace d @ [c]\<rparr>)"
  by (simp add: invoke_def)

lemma tasks_invoke [simp]: "tasks (snd (invoke c f d)) = tasks d"
  by (simp add: invoke_def split: prod.splits)

subsection \<open>The frame loop writes no more than it reads\<close>

lemma StdCopy_loop_length:
  "length (fst (StdCopy_loop buf ending written)) \<le> length written + length buf"
proof (induction buf ending written rule: StdCopy_loop.induct)
  case (1 buf ending written)
  show ?case
  proof (cases "\<not> length buf < 8 \<and> \<not> 3 < (of_char (buf ! 0) :: nat)
                 \<and> \<not> length buf < frameSize buf + 8 \<and> (of_char (buf ! 0) :: nat) \<noteq> 3")
    case True
    then have "length (fst (StdCopy_loop (drop (frameSize buf + 8) buf) ending
                 (written @ take (frameSize buf) (drop 8 buf))))
               \<le> length (written @ take (frameSize buf) (drop 8 buf))
                   + length (drop (frameSize buf + 8) buf)"
      using "1.IH" by simp
    with True show ?thesis
      by (subst StdCopy_loop.simps) simp
  next
    case False
    then show ?thesis
      by (subst StdCopy_loop.simps) auto
  qed
qed

lemma length_LimitedReader: "length (bytes (LimitedReader r n)) \<le> n"
  by (simp add: LimitedReader_def)

lemma StdCopy_LimitedReader_length: "length (fst (StdCopy (LimitedReader r n))) \<le> n"
  using StdCopy_loop_length [of "bytes (LimitedReader r n)" "fin (LimitedReader r n)" "[]"]
    length_LimitedReader [of r n]
  by (simp add: StdCopy_def)

subsection \<open>Cutting a stream short adds no error\<close>

lemma StdCopy_loop_truncate:
  "snd (StdCopy_loop buf ending written) = None \<Longrightarrow>
   snd (StdCopy_loop (take n buf) None written') = None"
proof (induction buf ending written arbitrary: n written' rule: StdCopy_loop.induct)
  case (1 buf ending written)
  let ?k = "frameSize buf + 8"
  show ?case
  proof (cases "length (take n buf) < 8")
    case True
    then show ?thesis by (subst StdCopy_loop.simps) simp
  next
    case long: False
    then have n8: "8 \<le> n" and b8: "\<not> length buf < 8" by auto
    have hd: "take n buf ! 0 = buf ! 0" using n8 by simp
    have fs: "frameSize (take n buf) = frameSize buf"
      using n8 by (simp add: frameSize_def)
    have ty: "\<not> 3 < (of_char (buf ! 0) :: nat)"
      using "1.prems" b8 by (subst (asm) StdCopy_loop.simps) (auto split: if_splits)
    show ?thesis
    proof (cases "length (take n buf) < ?k")
      case True
      then show ?thesis using long hd fs ty
        by (subst StdCopy_loop.simps) simp
    next
      case whole: False
      then have nk: "?k \<le> n" and bk: "\<not> length buf < ?k" by auto
      have ne3: "(of_char (buf ! 0) :: nat) \<noteq> 3"
        using "1.prems" b8 ty bk by (subst (asm) StdCopy_loop.simps) (auto split: if_splits)
      have full: "snd (StdCopy_loop (drop ?k buf) ending
                         (written @ take (frameSize buf) (drop 8 buf))) = None"
        using "1.prems" b8 ty bk ne3 by (subst (asm) StdCopy_loop.simps) simp
      have "snd (StdCopy_loop (take (n - ?k) (drop ?k buf)) None
                   (written' @ take (frameSize buf) (drop 8 (take n buf)))) = None"
        using "1.IH" [OF b8 ty bk ne3 full] .
      moreover have "drop ?k (take n buf) = take (n - ?k) (drop ?k buf)"
        by (simp add: drop_take)
      ultimately show ?thesis using long whole hd fs ty ne3
        by (subst StdCopy_loop.simps) simp
    qed
  qed
qed

lemma StdCopy_LimitedReader_ok:
  "snd (StdCopy r) = None \<Longrightarrow>
   snd (StdCopy (LimitedReader r n)) = None"
  using StdCopy_loop_truncate [of "bytes r" "fin r" "[]" n "[]"]
  by (simp add: StdCopy_def LimitedReader_def)

lemma tasks_Run_deferred [simp]: "tasks (Run_deferred out rid d) = tasks d"
  by (simp add: Run_deferred_def Let_def split: option.splits)

lemma Stop_untracks: "tasks (snd (DockerRuntime_Stop x t d)) (ID t) = None"
  by (simp add: DockerRuntime_Stop_def Let_def split: option.splits)

lemma Run_logs_result:
  "Run_logs x t rid out d = (Return res None, d') \<Longrightarrow>
   res = fst (StdCopy (LimitedReader out 1024))"
  by (auto simp add: Run_logs_def Let_def split: prod.splits option.splits wait.splits)

lemma Run_result:
  "DockerRuntime_Run x t d = (Return res None, d') \<Longrightarrow>
   \<exists>out :: ReadCloser. res = fst (StdCopy (LimitedReader out 1024))"
  by (auto simp add: DockerRuntime_Run_def Let_def
      split: prod.splits option.splits sum.splits dest: Run_logs_result)

lemmas handle_defs = handleTask_def time_Now_def broker_Publish_def runtime_Run_def

lemmas run_defs = DockerRuntime_Run_def Run_logs_def Run_deferred_def DockerRuntime_Stop_def

lemmas ex_defs = ex_task_def ex_extern_def ex_runtime_def

lemmas ex_worker_defs = ex_task_def ex_sys_def ex_clock_def ex_worker_def

lemmas frame_defs = StdCopy_def LimitedReader_def ex_frame_def StdCopy_loop.simps frameSize_def

section \<open>The task handler\<close>

text \<open>
  C1. A task whose state is not Scheduled is rejected with the error of line 43, built
  from the task's state. Nothing else happens: the task comes back with every field as
  it was, and the outside state and the list of calls are unchanged, so the runtime was
  not run and nothing was published.
\<close>

theorem handleTask_rejects_unscheduled:
  "State t \<noteq> Scheduled \<Longrightarrow>
   handleTask clock w t s =
     (Some (Errorf (''can't start a task in '' @ State_String (State t) @ '' state'')), t, s)"
  by (simp add: handleTask_def)

theorem handleTask_rejects_unscheduled_witness:
  "handleTask ex_clock (ex_worker [] (''hi'', None)) (ex_task\<lparr>State := Completed\<rparr>) ex_sys =
     (Some (Errorf ''can't start a task in Completed state''),
      ex_task\<lparr>State := Completed\<rparr>, ex_sys)"
  using handleTask_rejects_unscheduled [where t = "ex_task\<lparr>State := Completed\<rparr>"
      and clock = ex_clock and w = "ex_worker [] (''hi'', None)" and s = ex_sys]
  by simp

text \<open>
  C2. For a Scheduled task, when the publish to the started queue returns an error,
  \<open>handleTask\<close> returns that very error, and the calls it made are the reading of the
  clock and that publish: the runtime is not run, and the outside state is the one the
  publish left.
\<close>

theorem handleTask_started_publish_fails:
  assumes "State t = Scheduled"
    and "clock (world s) = (started, xa)"
    and "Publish (broker w) QUEUE_STARTED (t\<lparr>StartedAt := Some started, State := Running\<rparr>) xa
           = (Some err, xb)"
  shows "fst (handleTask clock w t s) = Some err \<and>
     snd (snd (handleTask clock w t s)) =
       \<lparr>world = xb,
        calls = calls s @
          [CallNow started,
           CallPublish QUEUE_STARTED (t\<lparr>StartedAt := Some started, State := Running\<rparr>)]\<rparr>"
  using assms by (simp add: handle_defs Let_def)

theorem handleTask_started_publish_fails_witness:
  "fst (handleTask ex_clock (ex_worker [QUEUE_STARTED] (''hi'', None)) ex_task ex_sys)
     = Some (Fundamental ''broker unreachable'') \<and>
   snd (snd (handleTask ex_clock (ex_worker [QUEUE_STARTED] (''hi'', None)) ex_task ex_sys)) =
     \<lparr>world = 2,
      calls = [CallNow 0,
               CallPublish QUEUE_STARTED (ex_task\<lparr>StartedAt := Some 0, State := Running\<rparr>)]\<rparr>"
  using handleTask_started_publish_fails [where t = ex_task and s = ex_sys
      and clock = ex_clock and started = 0 and xa = 1
      and w = "ex_worker [QUEUE_STARTED] (''hi'', None)"
      and err = "Fundamental ''broker unreachable''" and xb = 2]
  by (simp add: ex_worker_defs)

text \<open>
  C3. For a Scheduled task whose started publish succeeds and whose run returns an
  error \<open>rerr\<close>: the task ends with state Failed, \<open>Error\<close> the message of \<open>rerr\<close> and
  \<open>FailedAt\<close> the clock read in the state the run left; this task is published to the
  error queue; and \<open>handleTask\<close> returns what that publish returns, so its error when
  it fails and no error when it succeeds.
\<close>

theorem handleTask_runtime_error:
  assumes "State t = Scheduled"
    and "clock (world s) = (started, xa)"
    and "trun = t\<lparr>StartedAt := Some started, State := Running\<rparr>"
    and "Publish (broker w) QUEUE_STARTED trun xa = (None, xb)"
    and "Run (runtime w) trun xb = ((result, Some rerr), xc)"
    and "clock xc = (finished, xd)"
    and "tend = trun\<lparr>State := Failed, Error := err_Error rerr, FailedAt := Some finished\<rparr>"
    and "Publish (broker w) QUEUE_ERROR tend xd = (perr, xe)"
  shows "handleTask clock w t s =
     (perr, tend,
      \<lparr>world = xe,
       calls = calls s @
         [CallNow started, CallPublish QUEUE_STARTED trun, CallRun trun, CallNow finished,
          CallPublish QUEUE_ERROR tend]\<rparr>)"
  using assms by (simp add: handle_defs Let_def split: option.splits)

theorem handleTask_runtime_error_witness:
  "handleTask ex_clock (ex_worker [] (''out'', Some (Fundamental ''boom''))) ex_task ex_sys =
     (None,
      ex_task\<lparr>StartedAt := Some 0, State := Failed, Error := ''boom'', FailedAt := Some 3\<rparr>,
      \<lparr>world = 5, calls =
         [CallNow 0, CallPublish QUEUE_STARTED (ex_task\<lparr>StartedAt := Some 0, State := Running\<rparr>),
          CallRun (ex_task\<lparr>StartedAt := Some 0, State := Running\<rparr>), CallNow 3,
          CallPublish QUEUE_ERROR
            (ex_task\<lparr>StartedAt := Some 0, State := Failed, Error := ''boom'',
                      FailedAt := Some 3\<rparr>)]\<rparr>)"
  using handleTask_runtime_error [where t = ex_task and s = ex_sys and clock = ex_clock
      and started = 0 and xa = 1
      and trun = "ex_task\<lparr>StartedAt := Some 0, State := Running\<rparr>"
      and w = "ex_worker [] (''out'', Some (Fundamental ''boom''))" and xb = 2
      and result = "''out''" and rerr = "Fundamental ''boom''" and xc = 3 and finished = 3
      and xd = 4 and perr = None and xe = 5
      and tend = "ex_task\<lparr>StartedAt := Some 0, State := Failed, Error := ''boom'',
                     FailedAt := Some 3\<rparr>"]
  by (simp add: ex_worker_defs)

text \<open>
  C4. For a Scheduled task whose started publish succeeds and whose run returns
  \<open>result\<close> and no error: the task ends with \<open>Result\<close> that result, \<open>CompletedAt\<close>
  the clock read in the state the run left, and state Completed; this task is published
  to the completed queue; and \<open>handleTask\<close> returns exactly what that publish returns.
\<close>

theorem handleTask_runtime_success:
  assumes "State t = Scheduled"
    and "clock (world s) = (started, xa)"
    and "trun = t\<lparr>StartedAt := Some started, State := Running\<rparr>"
    and "Publish (broker w) QUEUE_STARTED trun xa = (None, xb)"
    and "Run (runtime w) trun xb = ((result, None), xc)"
    and "clock xc = (finished, xd)"
    and "tend = trun\<lparr>Result := result, CompletedAt := Some finished, State := Completed\<rparr>"
    and "Publish (broker w) QUEUE_COMPLETED tend xd = (perr, xe)"
  shows "handleTask clock w t s =
     (perr, tend,
      \<lparr>world = xe,
       calls = calls s @
         [CallNow started, CallPublish QUEUE_STARTED trun, CallRun trun, CallNow finished,
          CallPublish QUEUE_COMPLETED tend]\<rparr>)"
  using assms by (simp add: handle_defs Let_def split: option.splits)

theorem handleTask_runtime_success_witness:
  "handleTask ex_clock (ex_worker [QUEUE_COMPLETED] (''hi'', None)) ex_task ex_sys =
     (Some (Fundamental ''broker unreachable''),
      ex_task\<lparr>StartedAt := Some 0, State := Completed, Result := ''hi'', CompletedAt := Some 3\<rparr>,
      \<lparr>world = 5, calls =
         [CallNow 0, CallPublish QUEUE_STARTED (ex_task\<lparr>StartedAt := Some 0, State := Running\<rparr>),
          CallRun (ex_task\<lparr>StartedAt := Some 0, State := Running\<rparr>), CallNow 3,
          CallPublish QUEUE_COMPLETED
            (ex_task\<lparr>StartedAt := Some 0, State := Completed, Result := ''hi'',
                      CompletedAt := Some 3\<rparr>)]\<rparr>)"
  using handleTask_runtime_success [where t = ex_task and s = ex_sys and clock = ex_clock
      and started = 0 and xa = 1
      and trun = "ex_task\<lparr>StartedAt := Some 0, State := Running\<rparr>"
      and w = "ex_worker [QUEUE_COMPLETED] (''hi'', None)" and xb = 2
      and result = "''hi''" and xc = 3 and finished = 3
      and xd = 4 and perr = "Some (Fundamental ''broker unreachable'')" and xe = 5
      and tend = "ex_task\<lparr>StartedAt := Some 0, State := Completed, Result := ''hi'',
                     CompletedAt := Some 3\<rparr>"]
  by (simp add: ex_worker_defs)

text \<open>
  C8. The calls one handling of a task adds have one of three shapes: none (the task
  was rejected); the clock and the started publish (that publish failed); or the clock,
  the started publish, the run, the clock, and one publish to the completed or to the
  error queue. So whenever the runtime is run, the started publish comes before it, and
  after it there is exactly one terminal publish.
\<close>

theorem handleTask_publish_order:
  "\<exists>new. calls (snd (snd (handleTask clock w t s))) = calls s @ new \<and>
     (new = [] \<or>
      (\<exists>n1 t1. new = [CallNow n1, CallPublish QUEUE_STARTED t1]) \<or>
      (\<exists>n1 t1 n2 q t2.
          new = [CallNow n1, CallPublish QUEUE_STARTED t1, CallRun t1, CallNow n2,
                 CallPublish q t2]
          \<and> (q = QUEUE_COMPLETED \<or> q = QUEUE_ERROR)))"
  by (auto simp add: handle_defs Let_def split: option.splits prod.splits)

text \<open>
  C9. When the started publish fails, \<open>handleTask\<close> returns the error, and the task
  the caller holds is no longer the task it passed: \<open>StartedAt\<close> is set and the state
  is Running, as written before the publish, and nothing restores them.
\<close>

theorem handleTask_started_publish_fails_task_changed:
  assumes "State t = Scheduled"
    and "clock (world s) = (started, xa)"
    and "Publish (broker w) QUEUE_STARTED (t\<lparr>StartedAt := Some started, State := Running\<rparr>) xa
           = (Some err, xb)"
  shows "fst (handleTask clock w t s) = Some err \<and>
     fst (snd (handleTask clock w t s)) = t\<lparr>StartedAt := Some started, State := Running\<rparr> \<and>
     fst (snd (handleTask clock w t s)) \<noteq> t"
proof -
  have "t\<lparr>StartedAt := Some started, State := Running\<rparr> \<noteq> t"
  proof
    assume "t\<lparr>StartedAt := Some started, State := Running\<rparr> = t"
    then have "State (t\<lparr>StartedAt := Some started, State := Running\<rparr>) = State t"
      by simp
    with assms(1) show False by simp
  qed
  with assms show ?thesis by (simp add: handle_defs Let_def)
qed

theorem handleTask_started_publish_fails_task_changed_witness:
  "fst (handleTask ex_clock (ex_worker [QUEUE_STARTED] (''hi'', None)) ex_task ex_sys)
     = Some (Fundamental ''broker unreachable'') \<and>
   fst (snd (handleTask ex_clock (ex_worker [QUEUE_STARTED] (''hi'', None)) ex_task ex_sys))
     = ex_task\<lparr>StartedAt := Some 0, State := Running\<rparr> \<and>
   fst (snd (handleTask ex_clock (ex_worker [QUEUE_STARTED] (''hi'', None)) ex_task ex_sys))
     \<noteq> ex_task"
  using handleTask_started_publish_fails_task_changed [where t = ex_task and s = ex_sys
      and clock = ex_clock and started = 0 and xa = 1
      and w = "ex_worker [QUEUE_STARTED] (''hi'', None)"
      and err = "Fundamental ''broker unreachable''" and xb = 2]
  by (simp add: ex_worker_defs)

section \<open>The container runtime\<close>

text \<open>
  C5, as the code has it. When every step up to the limited read of the logs succeeds
  and the wait yields a status (whatever its exit code) or a \<open>nil\<close> error, \<open>Run\<close>
  calls \<open>Stop\<close>: the container's removal is requested once, after the wait. \<open>Run\<close>
  returns the captured output and no error whatever the removal returns; a failed
  removal adds one error line to the log and nothing else.
\<close>

theorem Run_cleanup_after_wait:
  assumes "client_ImagePull x (Image t) (client d) = (Inr reader, sa)"
    and "io_Copy_Stdout x reader sa = (None, sb)"
    and "cfg = \<lparr>cfg_Image = Image t,
                cfg_Env = map (\<lambda>(name, value). name @ ''='' @ value) (Env t),
                cfg_Cmd = CMD t\<rparr>"
    and "hcfg = \<lparr>RestartPolicy_Name = RestartPolicy t, Resources_Memory = Memory t,
                 PublishAllPorts = True\<rparr>"
    and "client_ContainerCreate x cfg hcfg (ID t) sb = (Inr rid, sc)"
    and "client_ContainerStart x rid sc = (None, sd)"
    and "client_ContainerLogs x rid \<lparr>ShowStdout = True, ShowStderr = True\<rparr> sd = (Inr out, se)"
    and "StdCopy (LimitedReader out 1024) = (buf, None)"
    and "client_ContainerWait x rid se = (w, sf)"
    and "w = WaitStatus code \<or> w = WaitErr None"
    and "client_ContainerRemove x rid
           \<lparr>RemoveVolumes = True, RemoveLinks = False, Force = True\<rparr> sf = (rerr, sg)"
  shows "DockerRuntime_Run x t d =
     (Return buf None,
      \<lparr>client = sg, tasks = (tasks d)(ID t := None),
       trace = trace d @
         [CallImagePull (Image t), CallCopyStdout, CallContainerCreate cfg hcfg (ID t),
          CallContainerStart rid,
          CallContainerLogs rid \<lparr>ShowStdout = True, ShowStderr = True\<rparr>,
          CallContainerWait rid] @
         (case w of
            WaitStatus code \<Rightarrow>
              [Log DebugLevel [Int64 ''status-code'' code, Str ''task-id'' (ID t)]
                 ''task completed'']
          | WaitErr e \<Rightarrow> []) @
         [Log DebugLevel [] (''Attempting to stop and remove container '' @ rid),
          CallContainerRemove rid \<lparr>RemoveVolumes = True, RemoveLinks = False, Force = True\<rparr>] @
         (case rerr of
            Some err \<Rightarrow> [Log ErrorLevel [Err err, Str ''container-id'' rid]
                           ''error removing container upon completion'']
          | None \<Rightarrow> []) @
         [CallClose] @
         (case close_err out of
            Some err \<Rightarrow>
              [Log ErrorLevel [Err err] (''error closing stdout on container '' @ rid)]
          | None \<Rightarrow> [])\<rparr>)"
  using assms
  by (auto simp add: run_defs invoke_def emit_def Let_def split: option.splits wait.splits)

theorem Run_cleanup_after_wait_witness:
  "DockerRuntime_Run
     (ex_extern (ex_frame 1 3 CHR ''h'') (WaitStatus 0) (Some (Fundamental ''remove failed'')))
     ex_task ex_runtime =
   (Return (replicate 3 CHR ''h'') None,
    \<lparr>client = 7, tasks = Map.empty,
     trace =
       [CallImagePull ''alpine'', CallCopyStdout,
        CallContainerCreate
          \<lparr>cfg_Image = ''alpine'', cfg_Env = [''A=1''], cfg_Cmd = [''echo'', ''hi'']\<rparr>
          \<lparr>RestartPolicy_Name = ''no'', Resources_Memory = 0, PublishAllPorts = True\<rparr> ''t1'',
        CallContainerStart ''c-t1'',
        CallContainerLogs ''c-t1'' \<lparr>ShowStdout = True, ShowStderr = True\<rparr>,
        CallContainerWait ''c-t1'',
        Log DebugLevel [Int64 ''status-code'' 0, Str ''task-id'' ''t1''] ''task completed'',
        Log DebugLevel [] ''Attempting to stop and remove container c-t1'',
        CallContainerRemove ''c-t1'' \<lparr>RemoveVolumes = True, RemoveLinks = False, Force = True\<rparr>,
        Log ErrorLevel [Err (Fundamental ''remove failed''), Str ''container-id'' ''c-t1'']
          ''error removing container upon completion'',
        CallClose]\<rparr>)"
proof -
  have read: "StdCopy (LimitedReader
                 \<lparr>bytes = ex_frame 1 3 CHR ''h'', fin = None, close_err = None\<rparr> 1024)
              = (replicate 3 CHR ''h'', None)"
    by (simp add: frame_defs)
  show ?thesis
    using Run_cleanup_after_wait [where x = "ex_extern (ex_frame 1 3 CHR ''h'') (WaitStatus 0)
                           (Some (Fundamental ''remove failed''))"
        and t = ex_task and d = ex_runtime
        and reader = "\<lparr>bytes = ''ok'', fin = None, close_err = None\<rparr>"
        and sa = 1 and sb = 2 and sc = 3 and sd = 4 and se = 5 and sf = 6 and sg = 7
        and cfg = "\<lparr>cfg_Image = ''alpine'', cfg_Env = [''A=1''], cfg_Cmd = [''echo'', ''hi'']\<rparr>"
        and hcfg = "\<lparr>RestartPolicy_Name = ''no'', Resources_Memory = 0, PublishAllPorts = True\<rparr>"
        and rid = "''c-t1''"
        and out = "\<lparr>bytes = ex_frame 1 3 CHR ''h'', fin = None, close_err = None\<rparr>"
        and buf = "replicate 3 CHR ''h''" and w = "WaitStatus 0" and code = 0
        and rerr = "Some (Fundamental ''remove failed'')"]
      read
    by (simp add: ex_defs)
qed

text \<open>
  C5 as stated fails. When the wait yields an error, \<open>Run\<close> returns that error from
  inside the select: after the wait only the deferred close runs, the removal of the
  container is never requested, and the task stays in the tracking table.
\<close>

theorem Run_wait_error_skips_cleanup:
  "fst (DockerRuntime_Run (ex_extern (ex_frame 1 3 CHR ''h'') (WaitErr (Some (Fundamental ''wait failed''))) None) ex_task ex_runtime) = Return [] (Some (Fundamental ''wait failed'')) \<and>
   trace (snd (DockerRuntime_Run (ex_extern (ex_frame 1 3 CHR ''h'') (WaitErr (Some (Fundamental ''wait failed''))) None) ex_task ex_runtime)) =
       [CallImagePull ''alpine'', CallCopyStdout,
        CallContainerCreate
          \<lparr>cfg_Image = ''alpine'', cfg_Env = [''A=1''], cfg_Cmd = [''echo'', ''hi'']\<rparr>
          \<lparr>RestartPolicy_Name = ''no'', Resources_Memory = 0, PublishAllPorts = True\<rparr> ''t1'',
        CallContainerStart ''c-t1'',
        CallContainerLogs ''c-t1'' \<lparr>ShowStdout = True, ShowStderr = True\<rparr>,
        CallContainerWait ''c-t1'',
        CallClose] \<and>
   tasks (snd (DockerRuntime_Run (ex_extern (ex_frame 1 3 CHR ''h'') (WaitErr (Some (Fundamental ''wait failed''))) None) ex_task ex_runtime)) ''t1'' = Some ''c-t1''"
  by (simp add: run_defs invoke_def emit_def ex_defs Let_def frame_defs)

text \<open>
  C6. \<open>Stop\<close> on a task whose ID is not in the tracking table returns no error and
  leaves the runtime as it was: client state, table and trace, so no removal was
  requested. And after \<open>Run\<close> on a task and then \<open>Stop\<close> on it, whatever \<open>Run\<close>
  returned, the table has no entry for the task's ID.
\<close>

theorem Stop_idempotent:
  "(tasks d (ID t) = None \<longrightarrow> DockerRuntime_Stop x t d = (None, d)) \<and>
   tasks (snd (DockerRuntime_Stop x t (snd (DockerRuntime_Run x t d)))) (ID t) = None"
  by (simp add: Stop_untracks) (simp add: DockerRuntime_Stop_def)

theorem Stop_idempotent_witness:
  "tasks ex_runtime (ID ex_task) = None \<and>
   DockerRuntime_Stop (ex_extern (ex_frame 1 3 CHR ''h'') (WaitErr (Some (Fundamental ''wait failed''))) None) ex_task ex_runtime = (None, ex_runtime) \<and>
   tasks (snd (DockerRuntime_Stop (ex_extern (ex_frame 1 3 CHR ''h'') (WaitErr (Some (Fundamental ''wait failed''))) None) ex_task (snd (DockerRuntime_Run (ex_extern (ex_frame 1 3 CHR ''h'') (WaitErr (Some (Fundamental ''wait failed''))) None) ex_task ex_runtime))))
     (ID ex_task) = None"
  using Stop_idempotent [where d = ex_runtime and t = ex_task and x = "(ex_extern (ex_frame 1 3 CHR ''h'') (WaitErr (Some (Fundamental ''wait failed''))) None)"]
  by (simp add: ex_runtime_def)

text \<open>
  C7. Whatever the docker daemon does and however long the container's output is, a
  result that \<open>Run\<close> returns without error has at most 1024 bytes. And the bytes past
  the ceiling cause no error: when every other step succeeds, the wait ends normally and
  the stream \<open>out\<close> of the logs, read to its end, would be copied without error, then
  \<open>Run\<close> succeeds and returns what the frames within the first 1024 bytes of \<open>out\<close>
  hold.
\<close>

theorem Run_output_ceiling:
  "(DockerRuntime_Run x t d = (Return res None, d') \<longrightarrow> length res \<le> 1024) \<and>
   (client_ImagePull x (Image t) (client d) = (Inr reader, sa) \<and>
    io_Copy_Stdout x reader sa = (None, sb) \<and>
    client_ContainerCreate x
      \<lparr>cfg_Image = Image t, cfg_Env = map (\<lambda>(name, value). name @ ''='' @ value) (Env t),
       cfg_Cmd = CMD t\<rparr>
      \<lparr>RestartPolicy_Name = RestartPolicy t, Resources_Memory = Memory t,
       PublishAllPorts = True\<rparr>
      (ID t) sb = (Inr rid, sc) \<and>
    client_ContainerStart x rid sc = (None, sd) \<and>
    client_ContainerLogs x rid \<lparr>ShowStdout = True, ShowStderr = True\<rparr> sd = (Inr out, se) \<and>
    client_ContainerWait x rid se = (w, sf) \<and> (w = WaitStatus code \<or> w = WaitErr None) \<and>
    snd (StdCopy out) = None
    \<longrightarrow> fst (DockerRuntime_Run x t d) = Return (fst (StdCopy (LimitedReader out 1024))) None)"
proof (intro conjI impI)
  assume "DockerRuntime_Run x t d = (Return res None, d')"
  then obtain r :: ReadCloser where "res = fst (StdCopy (LimitedReader r 1024))"
    using Run_result by blast
  then show "length res \<le> 1024"
    by (simp add: StdCopy_LimitedReader_length)
next
  assume a: "client_ImagePull x (Image t) (client d) = (Inr reader, sa) \<and>
    io_Copy_Stdout x reader sa = (None, sb) \<and>
    client_ContainerCreate x
      \<lparr>cfg_Image = Image t, cfg_Env = map (\<lambda>(name, value). name @ ''='' @ value) (Env t),
       cfg_Cmd = CMD t\<rparr>
      \<lparr>RestartPolicy_Name = RestartPolicy t, Resources_Memory = Memory t,
       PublishAllPorts = True\<rparr>
      (ID t) sb = (Inr rid, sc) \<and>
    client_ContainerStart x rid sc = (None, sd) \<and>
    client_ContainerLogs x rid \<lparr>ShowStdout = True, ShowStderr = True\<rparr> sd = (Inr out, se) \<and>
    client_ContainerWait x rid se = (w, sf) \<and> (w = WaitStatus code \<or> w = WaitErr None) \<and>
    snd (StdCopy out) = None"
  then have "snd (StdCopy (LimitedReader out 1024)) = None"
    by (simp add: StdCopy_LimitedReader_ok)
  then have "StdCopy (LimitedReader out 1024) = (fst (StdCopy (LimitedReader out 1024)), None)"
    by (metis prod.collapse)
  with a show "fst (DockerRuntime_Run x t d)
                 = Return (fst (StdCopy (LimitedReader out 1024))) None"
    by (auto simp add: run_defs invoke_def emit_def Let_def split: option.splits prod.splits)
qed

theorem Run_output_ceiling_witness:
  "length (ex_frame 1 600 CHR ''a'' @ ex_frame 2 600 CHR ''b'') = 1216 \<and>
   fst (DockerRuntime_Run
          (ex_extern (ex_frame 1 600 CHR ''a'' @ ex_frame 2 600 CHR ''b'') (WaitStatus 0) None)
          ex_task ex_runtime) = Return (replicate 600 CHR ''a'') None \<and>
   length (replicate 600 CHR ''a'') \<le> 1024"
proof -
  let ?out = "\<lparr>bytes = ex_frame 1 600 CHR ''a'' @ ex_frame 2 600 CHR ''b'', fin = None,
               close_err = None\<rparr>"
  have whole: "snd (StdCopy ?out) = None"
    by (simp add: frame_defs)
  have cut: "fst (StdCopy (LimitedReader ?out 1024)) = replicate 600 CHR ''a''"
    by (simp add: frame_defs)
  have "fst (DockerRuntime_Run
          (ex_extern (ex_frame 1 600 CHR ''a'' @ ex_frame 2 600 CHR ''b'') (WaitStatus 0) None)
          ex_task ex_runtime) = Return (fst (StdCopy (LimitedReader ?out 1024))) None"
    using whole
      Run_output_ceiling [where x = "ex_extern (ex_frame 1 600 CHR ''a''
            @ ex_frame 2 600 CHR ''b'') (WaitStatus 0) None"
        and t = ex_task and d = ex_runtime
        and reader = "\<lparr>bytes = ''ok'', fin = None, close_err = None\<rparr>"
        and sa = 1 and sb = 2 and sc = 3 and sd = 4 and se = 5 and sf = 6
        and rid = "''c-t1''" and out = ?out and w = "WaitStatus 0" and code = 0,
        THEN conjunct2]
    by (simp add: ex_defs)
  with cut show ?thesis by (simp add: ex_frame_def)
qed

text \<open>
  C10. \<open>Stop\<close> on a tracked ID removes the entry from the table, then asks the
  client to remove the container, and returns what the client returns. Whether that is
  an error or not, the ID is no longer tracked afterwards, and a second \<open>Stop\<close> for
  the same task returns no error and changes nothing: it does not ask for the removal
  again.
\<close>

theorem Stop_untracks_before_remove:
  assumes "tasks d (ID t) = Some containerID"
    and "client_ContainerRemove x containerID
           \<lparr>RemoveVolumes = True, RemoveLinks = False, Force = True\<rparr> (client d) = (rerr, sa)"
    and "d' = \<lparr>client = sa, tasks = (tasks d)(ID t := None),
               trace = trace d @
                 [Log DebugLevel [] (''Attempting to stop and remove container '' @ containerID),
                  CallContainerRemove containerID
                    \<lparr>RemoveVolumes = True, RemoveLinks = False, Force = True\<rparr>]\<rparr>"
  shows "DockerRuntime_Stop x t d = (rerr, d') \<and> tasks d' (ID t) = None \<and>
         DockerRuntime_Stop x t d' = (None, d')"
  using assms by (simp add: DockerRuntime_Stop_def invoke_def emit_def Let_def)

theorem Stop_untracks_before_remove_witness:
  "DockerRuntime_Stop
     (ex_extern [] (WaitStatus 0) (Some (Fundamental ''remove failed'')))
     ex_task (ex_runtime\<lparr>tasks := [''t1'' \<mapsto> ''c-t1'']\<rparr>) =
     (Some (Fundamental ''remove failed''),
      \<lparr>client = 1, tasks = Map.empty,
       trace = [Log DebugLevel [] ''Attempting to stop and remove container c-t1'',
                CallContainerRemove ''c-t1''
                  \<lparr>RemoveVolumes = True, RemoveLinks = False, Force = True\<rparr>]\<rparr>) \<and>
   DockerRuntime_Stop
     (ex_extern [] (WaitStatus 0) (Some (Fundamental ''remove failed'')))
     ex_task
     \<lparr>client = 1, tasks = Map.empty,
       trace = [Log DebugLevel [] ''Attempting to stop and remove container c-t1'',
                CallContainerRemove ''c-t1''
                  \<lparr>RemoveVolumes = True, RemoveLinks = False, Force = True\<rparr>]\<rparr> =
     (None,
      \<lparr>client = 1, tasks = Map.empty,
       trace = [Log DebugLevel [] ''Attempting to stop and remove container c-t1'',
                CallContainerRemove ''c-t1''
                  \<lparr>RemoveVolumes = True, RemoveLinks = False, Force = True\<rparr>]\<rparr>)"
  using Stop_untracks_before_remove [where d = "ex_runtime\<lparr>tasks := [''t1'' \<mapsto> ''c-t1'']\<rparr>"
      and t = ex_task
      and x = "ex_extern [] (WaitStatus 0) (Some (Fundamental ''remove failed''))"
      and containerID = "''c-t1''" and rerr = "Some (Fundamental ''remove failed'')" and sa = 1
      and d' = "\<lparr>client = 1, tasks = Map.empty,
       trace = [Log DebugLevel [] ''Attempting to stop and remove container c-t1'',
                CallContainerRemove ''c-t1''
                  \<lparr>RemoveVolumes = True, RemoveLinks = False, Force = True\<rparr>]\<rparr>"]
  by (simp add: ex_defs)

end
